theory Spec2Isabelle
  imports Main "HOL-Library.Word"
begin

section \<open>Values: hashes, addresses, balances\<close>

text \<open>
  Block hashes and account addresses are 32-byte values, signatures 64 bytes, the
  proof-of-work nonce 8 bytes and a balance 16 bytes (\<^verbatim>\<open>BalanceSize = 16\<close>).
\<close>

type_synonym hash = "256 word"
type_synonym address = "256 word"
type_synonym signature = "512 word"
type_synonym work = "64 word"
type_synonym balance = "128 word"

text \<open>
  Modelled from the spec: package \<^verbatim>\<open>uint128\<close> (\<^verbatim>\<open>nano/internal/uint128\<close>) and the
  \<^verbatim>\<open>Compare\<close> method of \<^verbatim>\<open>wallet.Balance\<close> with its constants \<^verbatim>\<open>BalanceCompBigger\<close>,
  \<^verbatim>\<open>BalanceCompEqual\<close> are not among the sources. The spec describes a balance as a
  128-bit unsigned value; \<^verbatim>\<open>balance.go\<close> shows that \<^verbatim>\<open>Add\<close> and \<^verbatim>\<open>Sub\<close> take and return
  such a value with no error result. They are taken to be addition and subtraction on
  128 bits, and \<^verbatim>\<open>Compare\<close> to be the comparison of the unsigned values.
\<close>

datatype BalanceComp = BalanceCompSmaller | BalanceCompEqual | BalanceCompBigger

definition BalanceCompare :: "balance \<Rightarrow> balance \<Rightarrow> BalanceComp" where
  "BalanceCompare b n =
     (if b < n then BalanceCompSmaller
      else if b = n then BalanceCompEqual
      else BalanceCompBigger)"

definition BalanceAdd :: "balance \<Rightarrow> balance \<Rightarrow> balance" where
  "BalanceAdd b n = b + n"

definition BalanceSub :: "balance \<Rightarrow> balance \<Rightarrow> balance" where
  "BalanceSub b n = b - n"

definition ZeroBalance :: balance where
  "ZeroBalance = 0"

section \<open>Blocks\<close>

text \<open>
  The four block types of package \<^verbatim>\<open>block\<close>, with the fields the ledger reads. A value
  of the interface \<^verbatim>\<open>block.Block\<close> is one of the four, or a value of some other type
  implementing the interface (\<open>Other\<close>, with an opaque payload).
\<close>

record OpenBlock =
  OpenAddress :: address
  OpenRepresentative :: address
  OpenSourceHash :: hash
  OpenSignature :: signature
  OpenWork :: work

record SendBlock =
  SendPreviousHash :: hash
  SendDestination :: address
  SendBalance :: balance
  SendSignature :: signature
  SendWork :: work

record ReceiveBlock =
  ReceivePreviousHash :: hash
  ReceiveSourceHash :: hash
  ReceiveSignature :: signature
  ReceiveWork :: work

record ChangeBlock =
  ChangePreviousHash :: hash
  ChangeRepresentative :: address
  ChangeSignature :: signature
  ChangeWork :: work

datatype block =
    Open OpenBlock
  | Send SendBlock
  | Receive ReceiveBlock
  | Change ChangeBlock
  | Other nat hash

text \<open>
  Modelled from the spec: the methods \<^verbatim>\<open>Root\<close> and \<^verbatim>\<open>Signature\<close> of the block types are
  not among the sources. The root of a block is the hash it extends: the previous
  block for Send, Receive and Change, the source for Open.
\<close>

fun Root :: "block \<Rightarrow> hash" where
  "Root (Open b) = OpenSourceHash b"
| "Root (Send b) = SendPreviousHash b"
| "Root (Receive b) = ReceivePreviousHash b"
| "Root (Change b) = ChangePreviousHash b"
| "Root (Other n r) = r"

text \<open>
  The block hash (\<^verbatim>\<open>Hash\<close>), the proof-of-work check (\<^verbatim>\<open>Valid\<close>) and the signature
  check of an address (\<^verbatim>\<open>Address.Verify\<close>) are cryptographic functions outside the
  ledger; they are parameters of the model.
\<close>

record crypto =
  Hash :: "block \<Rightarrow> hash"
  Valid :: "block \<Rightarrow> bool"
  Verify :: "address \<Rightarrow> hash \<Rightarrow> signature \<Rightarrow> bool"

section \<open>Errors and results\<close>

text \<open>
  The error values of the packages. \<open>ErrorString\<close> is \<^verbatim>\<open>errors.New\<close> with its message;
  \<open>NegativeOrZeroSpend\<close> is the \<^verbatim>\<open>fmt.Errorf("negative/zero spend: %s >= %s", ...)\<close> of
  \<^verbatim>\<open>addSendBlock\<close> with its two arguments. \<open>ErrKeyNotFound\<close> is badger's error for a
  missing key. A call returns \<^verbatim>\<open>nil\<close> (\<open>Ok\<close>), returns an error, or panics.
\<close>

datatype error =
    ErrBadWork
  | ErrBadGenesis
  | ErrMissingPrevious
  | ErrMissingSource
  | ErrBlockExists
  | ErrKeyNotFound
  | ErrBadBalanceSize
  | NegativeOrZeroSpend balance balance
  | ErrorString string

datatype ret = Ok | Err error | Panic string

section \<open>The store\<close>

record AddressInfo =
  HeadBlock :: hash
  RepBlock :: hash
  OpenBlock :: hash
  Balance :: balance

record Pending =
  Address :: address
  Amount :: balance

record Frontier =
  FrontierAddress :: address
  FrontierHash :: hash

text \<open>
  A badger transaction is a key-value map; \<^verbatim>\<open>badger.go\<close> keeps five tables in it, their
  keys told apart by a one-byte prefix. The model keeps one map per prefix, holding the
  decoded values. Storage failures other than a missing key are not modelled.
\<close>

record store =
  blocks :: "hash \<rightharpoonup> block"
  addresses :: "address \<rightharpoonup> AddressInfo"
  frontiers :: "hash \<rightharpoonup> address"
  pendings :: "address \<times> hash \<rightharpoonup> Pending"
  representations :: "address \<rightharpoonup> balance"

definition emptyStore :: store where
  "emptyStore = \<lparr>blocks = Map.empty, addresses = Map.empty, frontiers = Map.empty,
     pendings = Map.empty, representations = Map.empty\<rparr>"

text \<open>
  \<^verbatim>\<open>db.Update(fn)\<close> of badger runs \<open>fn\<close> on a transaction and commits it when \<open>fn\<close>
  returns \<^verbatim>\<open>nil\<close>; when \<open>fn\<close> returns an error or panics the transaction is discarded.
  A function run in a transaction returns the transaction's state with its result.
\<close>

definition Update :: "store \<Rightarrow> (store \<Rightarrow> store \<times> ret) \<Rightarrow> store \<times> ret" where
  "Update db fn =
     (case fn db of
        (txn, Ok) \<Rightarrow> (txn, Ok)
      | (txn, Err e) \<Rightarrow> (db, Err e)
      | (txn, Panic m) \<Rightarrow> (db, Panic m))"

definition TxnEmpty :: "store \<Rightarrow> bool" where
  "TxnEmpty t = (dom (blocks t) = {})"

definition TxnAddBlock :: "crypto \<Rightarrow> store \<Rightarrow> block \<Rightarrow> error + store" where
  "TxnAddBlock c t blk =
     (let hash = Hash c blk in
      case blocks t hash of
        Some _ \<Rightarrow> Inl ErrBlockExists
      | None \<Rightarrow> Inr (t\<lparr>blocks := (blocks t)(hash \<mapsto> blk)\<rparr>))"

definition TxnGetBlock :: "store \<Rightarrow> hash \<Rightarrow> error + block" where
  "TxnGetBlock t hash =
     (case blocks t hash of None \<Rightarrow> Inl ErrKeyNotFound | Some blk \<Rightarrow> Inr blk)"

definition TxnHasBlock :: "store \<Rightarrow> hash \<Rightarrow> bool" where
  "TxnHasBlock t hash = (case blocks t hash of None \<Rightarrow> False | Some _ \<Rightarrow> True)"

definition TxnCountBlocks :: "store \<Rightarrow> 64 word" where
  "TxnCountBlocks t = of_nat (card (dom (blocks t)))"

definition TxnAddAddress :: "store \<Rightarrow> address \<Rightarrow> AddressInfo \<Rightarrow> error + store" where
  "TxnAddAddress t address info =
     (case addresses t address of
        Some _ \<Rightarrow> Inl (ErrorString ''address already exists'')
      | None \<Rightarrow> Inr (t\<lparr>addresses := (addresses t)(address \<mapsto> info)\<rparr>))"

definition TxnGetAddress :: "store \<Rightarrow> address \<Rightarrow> error + AddressInfo" where
  "TxnGetAddress t address =
     (case addresses t address of None \<Rightarrow> Inl ErrKeyNotFound | Some info \<Rightarrow> Inr info)"

definition TxnUpdateAddress :: "store \<Rightarrow> address \<Rightarrow> AddressInfo \<Rightarrow> error + store" where
  "TxnUpdateAddress t address info =
     Inr (t\<lparr>addresses := (addresses t)(address \<mapsto> info)\<rparr>)"

definition TxnAddFrontier :: "store \<Rightarrow> Frontier \<Rightarrow> error + store" where
  "TxnAddFrontier t frontier =
     (case frontiers t (FrontierHash frontier) of
        Some _ \<Rightarrow> Inl (ErrorString ''frontier already exists'')
      | None \<Rightarrow>
          Inr (t\<lparr>frontiers := (frontiers t)(FrontierHash frontier \<mapsto> FrontierAddress frontier)\<rparr>))"

definition TxnGetFrontier :: "store \<Rightarrow> hash \<Rightarrow> error + Frontier" where
  "TxnGetFrontier t hash =
     (case frontiers t hash of
        None \<Rightarrow> Inl ErrKeyNotFound
      | Some address \<Rightarrow> Inr \<lparr>FrontierAddress = address, FrontierHash = hash\<rparr>)"

definition TxnDeleteFrontier :: "store \<Rightarrow> hash \<Rightarrow> error + store" where
  "TxnDeleteFrontier t hash = Inr (t\<lparr>frontiers := (frontiers t)(hash := None)\<rparr>)"

definition TxnAddPending :: "store \<Rightarrow> address \<Rightarrow> hash \<Rightarrow> Pending \<Rightarrow> error + store" where
  "TxnAddPending t destination hash pending =
     (case pendings t (destination, hash) of
        Some _ \<Rightarrow> Inl (ErrorString ''pending transaction already exists'')
      | None \<Rightarrow> Inr (t\<lparr>pendings := (pendings t)((destination, hash) \<mapsto> pending)\<rparr>))"

definition TxnGetPending :: "store \<Rightarrow> address \<Rightarrow> hash \<Rightarrow> error + Pending" where
  "TxnGetPending t destination hash =
     (case pendings t (destination, hash) of
        None \<Rightarrow> Inl ErrKeyNotFound
      | Some pending \<Rightarrow> Inr pending)"

definition TxnDeletePending :: "store \<Rightarrow> address \<Rightarrow> hash \<Rightarrow> error + store" where
  "TxnDeletePending t destination hash =
     Inr (t\<lparr>pendings := (pendings t)((destination, hash) := None)\<rparr>)"

definition setRepresentation :: "store \<Rightarrow> address \<Rightarrow> balance \<Rightarrow> error + store" where
  "setRepresentation t address amount =
     Inr (t\<lparr>representations := (representations t)(address \<mapsto> amount)\<rparr>)"

definition GetRepresentation :: "store \<Rightarrow> address \<Rightarrow> error + balance" where
  "GetRepresentation t address =
     (case representations t address of
        None \<Rightarrow> Inr ZeroBalance
      | Some amount \<Rightarrow> Inr amount)"

definition AddRepresentation :: "store \<Rightarrow> address \<Rightarrow> balance \<Rightarrow> error + store" where
  "AddRepresentation t address amount =
     (case GetRepresentation t address of
        Inl err \<Rightarrow> Inl err
      | Inr oldAmount \<Rightarrow> setRepresentation t address (BalanceAdd oldAmount amount))"

definition SubRepresentation :: "store \<Rightarrow> address \<Rightarrow> balance \<Rightarrow> error + store" where
  "SubRepresentation t address amount =
     (case GetRepresentation t address of
        Inl err \<Rightarrow> Inl err
      | Inr oldAmount \<Rightarrow> setRepresentation t address (BalanceSub oldAmount amount))"

section \<open>The ledger\<close>

definition getRepresentative :: "store \<Rightarrow> address \<Rightarrow> error + address" where
  "getRepresentative t address =
     (case TxnGetAddress t address of
        Inl err \<Rightarrow> Inl err
      | Inr info \<Rightarrow>
     (case TxnGetBlock t (RepBlock info) of
        Inl err \<Rightarrow> Inl err
      | Inr blk \<Rightarrow>
     (case blk of
        Open b \<Rightarrow> Inr (OpenRepresentative b)
      | Change b \<Rightarrow> Inr (ChangeRepresentative b)
      | _ \<Rightarrow> Inl (ErrorString ''bad representative block type''))))"

definition addOpenBlock :: "crypto \<Rightarrow> store \<Rightarrow> OpenBlock \<Rightarrow> store \<times> ret" where
  "addOpenBlock c t blk =
     (let hash = Hash c (Open blk) in
      if \<not> Verify c (OpenAddress blk) hash (OpenSignature blk)
      then (t, Err (ErrorString ''bad block signature''))
      else
     (case TxnGetAddress t (OpenAddress blk) of
        Inr _ \<Rightarrow> (t, Err (ErrorString ''account already exists''))
      | Inl _ \<Rightarrow>
     (case TxnGetPending t (OpenAddress blk) (OpenSourceHash blk) of
        Inl _ \<Rightarrow> (t, Err ErrMissingSource)
      | Inr pending \<Rightarrow>
     (let info = \<lparr>HeadBlock = hash, RepBlock = hash, OpenBlock = hash,
                  Balance = Amount pending\<rparr> in
     (case TxnAddAddress t (OpenAddress blk) info of
        Inl err \<Rightarrow> (t, Err err)
      | Inr t1 \<Rightarrow>
     (case TxnDeletePending t1 (OpenAddress blk) (OpenSourceHash blk) of
        Inl err \<Rightarrow> (t1, Err err)
      | Inr t2 \<Rightarrow>
     (case AddRepresentation t2 (OpenRepresentative blk) (Amount pending) of
        Inl err \<Rightarrow> (t2, Err err)
      | Inr t3 \<Rightarrow>
     (case TxnAddFrontier t3 \<lparr>FrontierAddress = OpenAddress blk, FrontierHash = hash\<rparr> of
        Inl err \<Rightarrow> (t3, Err err)
      | Inr t4 \<Rightarrow>
     (case TxnAddBlock c t4 (Open blk) of
        Inl err \<Rightarrow> (t4, Err err)
      | Inr t5 \<Rightarrow> (t5, Ok))))))))))"

definition addSendBlock :: "crypto \<Rightarrow> store \<Rightarrow> SendBlock \<Rightarrow> store \<times> ret" where
  "addSendBlock c t blk =
     (let hash = Hash c (Send blk) in
     (case TxnGetFrontier t (Root (Send blk)) of
        Inl err \<Rightarrow> (t, Err err)
      | Inr frontier \<Rightarrow>
     (if \<not> Verify c (FrontierAddress frontier) hash (SendSignature blk)
      then (t, Err (ErrorString ''bad block signature''))
      else
     (case TxnGetAddress t (FrontierAddress frontier) of
        Inl err \<Rightarrow> (t, Err err)
      | Inr info \<Rightarrow>
     (if HeadBlock info \<noteq> FrontierHash frontier
      then (t, Err (ErrorString ''unexpected head block for account''))
      else
     (let comp = BalanceCompare (SendBalance blk) (Balance info) in
     (if comp = BalanceCompBigger \<or> comp = BalanceCompEqual
      then (t, Err (NegativeOrZeroSpend (SendBalance blk) (Balance info)))
      else
     (let pending = \<lparr>Address = FrontierAddress frontier,
                     Amount = BalanceSub (Balance info) (SendBalance blk)\<rparr> in
     (case TxnAddPending t (SendDestination blk) hash pending of
        Inl err \<Rightarrow> (t, Err err)
      | Inr t1 \<Rightarrow>
     (let info' = info\<lparr>HeadBlock := hash, Balance := SendBalance blk\<rparr> in
     (case TxnUpdateAddress t1 (FrontierAddress frontier) info' of
        Inl err \<Rightarrow> (t1, Err err)
      | Inr t2 \<Rightarrow>
     (case getRepresentative t2 (FrontierAddress frontier) of
        Inl err \<Rightarrow> (t2, Err err)
      | Inr rep \<Rightarrow>
     (case SubRepresentation t2 rep (SendBalance blk) of
        Inl err \<Rightarrow> (t2, Err err)
      | Inr t3 \<Rightarrow>
     (case TxnDeleteFrontier t3 hash of
        Inl err \<Rightarrow> (t3, Err err)
      | Inr t4 \<Rightarrow>
     (case TxnAddFrontier t4 \<lparr>FrontierAddress = FrontierAddress frontier,
                               FrontierHash = hash\<rparr> of
        Inl err \<Rightarrow> (t4, Err err)
      | Inr t5 \<Rightarrow>
     (case TxnAddBlock c t5 (Send blk) of
        Inl err \<Rightarrow> (t5, Err err)
      | Inr t6 \<Rightarrow> (t6, Ok)))))))))))))))))"

definition addReceiveBlock :: "crypto \<Rightarrow> store \<Rightarrow> ReceiveBlock \<Rightarrow> store \<times> ret" where
  "addReceiveBlock c t blk =
     (let hash = Hash c (Receive blk) in
     (case TxnGetFrontier t (Root (Receive blk)) of
        Inl err \<Rightarrow> (t, Err err)
      | Inr frontier \<Rightarrow>
     (if \<not> Verify c (FrontierAddress frontier) hash (ReceiveSignature blk)
      then (t, Err (ErrorString ''bad block signature''))
      else
     (case TxnGetAddress t (FrontierAddress frontier) of
        Inl err \<Rightarrow> (t, Err err)
      | Inr info \<Rightarrow>
     (if HeadBlock info \<noteq> FrontierHash frontier
      then (t, Err (ErrorString ''unexpected head block for account''))
      else
     (case TxnGetPending t (FrontierAddress frontier) (ReceiveSourceHash blk) of
        Inl _ \<Rightarrow> (t, Err ErrMissingSource)
      | Inr pending \<Rightarrow>
     (let info' = info\<lparr>HeadBlock := hash,
                        Balance := BalanceAdd (Balance info) (Amount pending)\<rparr> in
     (case TxnUpdateAddress t (FrontierAddress frontier) info' of
        Inl err \<Rightarrow> (t, Err err)
      | Inr t1 \<Rightarrow>
     (case TxnDeletePending t1 (FrontierAddress frontier) (ReceiveSourceHash blk) of
        Inl err \<Rightarrow> (t1, Err err)
      | Inr t2 \<Rightarrow>
     (case getRepresentative t2 (FrontierAddress frontier) of
        Inl err \<Rightarrow> (t2, Err err)
      | Inr rep \<Rightarrow>
     (case AddRepresentation t2 rep (Amount pending) of
        Inl err \<Rightarrow> (t2, Err err)
      | Inr t3 \<Rightarrow>
     (case TxnDeleteFrontier t3 hash of
        Inl err \<Rightarrow> (t3, Err err)
      | Inr t4 \<Rightarrow>
     (case TxnAddFrontier t4 \<lparr>FrontierAddress = FrontierAddress frontier,
                               FrontierHash = hash\<rparr> of
        Inl err \<Rightarrow> (t4, Err err)
      | Inr t5 \<Rightarrow>
     (case TxnAddBlock c t5 (Receive blk) of
        Inl err \<Rightarrow> (t5, Err err)
      | Inr t6 \<Rightarrow> (t6, Ok)))))))))))))))"

definition addChangeBlock :: "crypto \<Rightarrow> store \<Rightarrow> ChangeBlock \<Rightarrow> store \<times> ret" where
  "addChangeBlock c t blk =
     (let hash = Hash c (Change blk) in
     (case TxnGetFrontier t (Root (Change blk)) of
        Inl err \<Rightarrow> (t, Err err)
      | Inr frontier \<Rightarrow>
     (if \<not> Verify c (FrontierAddress frontier) hash (ChangeSignature blk)
      then (t, Err (ErrorString ''bad block signature''))
      else
     (case TxnGetAddress t (FrontierAddress frontier) of
        Inl err \<Rightarrow> (t, Err err)
      | Inr info \<Rightarrow>
     (if HeadBlock info \<noteq> FrontierHash frontier
      then (t, Err (ErrorString ''unexpected head block for account''))
      else
     (let info' = info\<lparr>HeadBlock := hash, RepBlock := hash\<rparr> in
     (case TxnUpdateAddress t (FrontierAddress frontier) info' of
        Inl err \<Rightarrow> (t, Err err)
      | Inr t1 \<Rightarrow>
     (case getRepresentative t1 (FrontierAddress frontier) of
        Inl err \<Rightarrow> (t1, Err err)
      | Inr oldRep \<Rightarrow>
     (case SubRepresentation t1 oldRep (Balance info') of
        Inl err \<Rightarrow> (t1, Err err)
      | Inr t2 \<Rightarrow>
     (case AddRepresentation t2 (ChangeRepresentative blk) (Balance info') of
        Inl err \<Rightarrow> (t2, Err err)
      | Inr t3 \<Rightarrow>
     (case TxnDeleteFrontier t3 hash of
        Inl err \<Rightarrow> (t3, Err err)
      | Inr t4 \<Rightarrow>
     (case TxnAddFrontier t4 \<lparr>FrontierAddress = FrontierAddress frontier,
                               FrontierHash = hash\<rparr> of
        Inl err \<Rightarrow> (t4, Err err)
      | Inr t5 \<Rightarrow>
     (case TxnAddBlock c t5 (Change blk) of
        Inl err \<Rightarrow> (t5, Err err)
      | Inr t6 \<Rightarrow> (t6, Ok))))))))))))))"

text \<open>The type switch of \<^verbatim>\<open>addBlock\<close>, with its panicking default branch.\<close>

fun dispatch :: "crypto \<Rightarrow> store \<Rightarrow> block \<Rightarrow> store \<times> ret" where
  "dispatch c t (Open b) = addOpenBlock c t b"
| "dispatch c t (Send b) = addSendBlock c t b"
| "dispatch c t (Receive b) = addReceiveBlock c t b"
| "dispatch c t (Change b) = addChangeBlock c t b"
| "dispatch c t (Other n r) = (t, Panic ''bad block type'')"

definition addBlock :: "crypto \<Rightarrow> store \<Rightarrow> block \<Rightarrow> store \<times> ret" where
  "addBlock c t blk =
     (let hash = Hash c blk in
      if \<not> Valid c blk then (t, Err ErrBadWork)
      else if TxnHasBlock t hash then (t, Err ErrBlockExists)
      else if \<not> TxnHasBlock t (Root blk) then (t, Err ErrMissingPrevious)
      else dispatch c t blk)"

definition AddBlock :: "crypto \<Rightarrow> store \<Rightarrow> block \<Rightarrow> store \<times> ret" where
  "AddBlock c db blk = Update db (\<lambda>txn. addBlock c txn blk)"

text \<open>
  The loop of \<^verbatim>\<open>AddBlocks\<close>: an error of \<^verbatim>\<open>addBlock\<close> is looked at and the loop
  continues with the next block on the same transaction; a panic leaves the loop.
\<close>

fun AddBlocks_loop :: "crypto \<Rightarrow> store \<Rightarrow> block list \<Rightarrow> store \<times> ret" where
  "AddBlocks_loop c t [] = (t, Ok)"
| "AddBlocks_loop c t (blk # rest) =
     (case addBlock c t blk of
        (t', Panic m) \<Rightarrow> (t', Panic m)
      | (t', _) \<Rightarrow> AddBlocks_loop c t' rest)"

definition AddBlocks :: "crypto \<Rightarrow> store \<Rightarrow> block list \<Rightarrow> store \<times> ret" where
  "AddBlocks c db blks = Update db (\<lambda>txn. AddBlocks_loop c txn blks)"

definition CountBlocks :: "store \<Rightarrow> 64 word" where
  "CountBlocks db = TxnCountBlocks db"

definition setGenesis :: "crypto \<Rightarrow> store \<Rightarrow> OpenBlock \<Rightarrow> balance \<Rightarrow> store \<times> ret" where
  "setGenesis c db blk bal =
     (let hash = Hash c (Open blk) in
      if \<not> Verify c (OpenAddress blk) hash (OpenSignature blk)
      then (db, Err (ErrorString ''bad signature for genesis block''))
      else Update db (\<lambda>txn.
       (if \<not> TxnEmpty txn
        then (if \<not> TxnHasBlock txn hash then (txn, Err ErrBadGenesis) else (txn, Ok))
        else
       (case TxnAddBlock c txn (Open blk) of
          Inl err \<Rightarrow> (txn, Err err)
        | Inr t1 \<Rightarrow>
       (let info = \<lparr>HeadBlock = hash, RepBlock = hash, OpenBlock = hash, Balance = bal\<rparr> in
       (case TxnAddAddress t1 (OpenAddress blk) info of
          Inl err \<Rightarrow> (t1, Err err)
        | Inr t2 \<Rightarrow>
       (case TxnAddFrontier t2 \<lparr>FrontierAddress = OpenAddress blk, FrontierHash = hash\<rparr> of
          Inl err \<Rightarrow> (t2, Err err)
        | Inr t3 \<Rightarrow> (t3, Ok))))))))"

record LedgerOptions =
  GenesisBlock :: OpenBlock
  GenesisBalance :: balance

definition NewLedger :: "crypto \<Rightarrow> store \<Rightarrow> LedgerOptions \<Rightarrow> store \<times> ret" where
  "NewLedger c db opts = setGenesis c db (GenesisBlock opts) (GenesisBalance opts)"

section \<open>Balances as text\<close>

text \<open>
  \<^verbatim>\<open>ParseBalance\<close> and \<^verbatim>\<open>UnitString\<close> work through two libraries outside the
  repository: \<^verbatim>\<open>math/big\<close> and \<^verbatim>\<open>shopspring/decimal\<close>. A \<^verbatim>\<open>big.Int\<close> is an \<open>int\<close>; a
  \<^verbatim>\<open>decimal.Decimal\<close> is a coefficient and a power of ten (the library keeps the exponent
  in 32 bits; the bound is not modelled).
\<close>

type_synonym byte = "8 word"

record Decimal =
  dvalue :: int
  dexp :: int

definition decimalNew :: "int \<Rightarrow> int \<Rightarrow> Decimal" where
  "decimalNew v e = \<lparr>dvalue = v, dexp = e\<rparr>"

text \<open>\<^verbatim>\<open>big.Int.Bytes\<close>: the absolute value, big-endian, without leading zero bytes.\<close>

function natBytes :: "nat \<Rightarrow> byte list" where
  "natBytes n = (if n = 0 then [] else natBytes (n div 256) @ [of_nat (n mod 256)])"
  by pat_completeness auto
termination
  by (relation "measure (\<lambda>n. n)") auto

definition bigBytes :: "int \<Rightarrow> byte list" where
  "bigBytes i = natBytes (nat \<bar>i\<bar>)"

text \<open>\<^verbatim>\<open>big.Int.SetBytes\<close>: the unsigned value of a big-endian byte string.\<close>

definition bigSetBytes :: "byte list \<Rightarrow> int" where
  "bigSetBytes bs = foldl (\<lambda>acc b. acc * 256 + uint b) 0 bs"

text \<open>
  \<^verbatim>\<open>big.Int.String\<close> and \<^verbatim>\<open>big.Int.SetString(s, 10)\<close>: decimal digits with an optional
  sign; \<^verbatim>\<open>SetString\<close> wants at least one digit and nothing else.
\<close>

function natString :: "nat \<Rightarrow> string" where
  "natString n =
     (if n < 10 then [''0123456789'' ! n]
      else natString (n div 10) @ [''0123456789'' ! (n mod 10)])"
  by pat_completeness auto
termination
  by (relation "measure (\<lambda>n. n)") auto

definition bigString :: "int \<Rightarrow> string" where
  "bigString i = (if i < 0 then CHR ''-'' # natString (nat (- i)) else natString (nat i))"

definition digitVal :: "char \<Rightarrow> nat option" where
  "digitVal ch =
     map_of [(CHR ''0'', 0), (CHR ''1'', 1), (CHR ''2'', 2), (CHR ''3'', 3), (CHR ''4'', 4),
             (CHR ''5'', 5), (CHR ''6'', 6), (CHR ''7'', 7), (CHR ''8'', 8), (CHR ''9'', 9)] ch"

fun digitsVal :: "nat \<Rightarrow> string \<Rightarrow> nat option" where
  "digitsVal acc [] = Some acc"
| "digitsVal acc (ch # cs) =
     (case digitVal ch of
        None \<Rightarrow> None
      | Some d \<Rightarrow> digitsVal (acc * 10 + d) cs)"

definition bigSetString :: "string \<Rightarrow> int option" where
  "bigSetString s =
     (case s of
        [] \<Rightarrow> None
      | ch # cs \<Rightarrow>
          if ch = CHR ''-'' then (if cs = [] then None
                                  else map_option (\<lambda>n. - int n) (digitsVal 0 cs))
          else if ch = CHR ''+'' then (if cs = [] then None
                                       else map_option int (digitsVal 0 cs))
          else map_option int (digitsVal 0 s))"

text \<open>
  \<^verbatim>\<open>bigPow\<close> of \<^verbatim>\<open>balance.go\<close> passes its exponent to \<^verbatim>\<open>big.Int.Exp\<close> with base 10
  whatever \<open>base\<close> is; \<^verbatim>\<open>Exp\<close> gives 1 for an exponent that is not positive.
\<close>

definition bigPow :: "int \<Rightarrow> int \<Rightarrow> int" where
  "bigPow base e = (if e \<le> 0 then 1 else 10 ^ nat e)"

text \<open>\<^verbatim>\<open>big.Int.QuoRem\<close> and \<^verbatim>\<open>Quo\<close> truncate towards zero.\<close>

definition bigQuo :: "int \<Rightarrow> int \<Rightarrow> int" where
  "bigQuo a b = sgn a * sgn b * (\<bar>a\<bar> div \<bar>b\<bar>)"

definition bigRem :: "int \<Rightarrow> int \<Rightarrow> int" where
  "bigRem a b = a - b * bigQuo a b"

text \<open>
  The functions of the decimal library that \<^verbatim>\<open>balance.go\<close> calls. \<open>NewFromString\<close>
  covers plain decimal notation; a string in exponent notation (with \<^verbatim>\<open>e\<close> or \<^verbatim>\<open>E\<close>) is
  outside the model and gives \<open>ErrNotModelled\<close>. \<open>QuoRem\<close> and \<open>DivRound\<close> give \<open>None\<close>
  where the library panics (division by zero).
\<close>

datatype parseError = ErrTooManyDots | ErrNotANumber | ErrNotModelled

fun splitDot :: "string \<Rightarrow> string list" where
  "splitDot [] = [[]]"
| "splitDot (ch # cs) =
     (if ch = CHR ''.'' then [] # splitDot cs
      else (case splitDot cs of
              [] \<Rightarrow> [[ch]]
            | p # ps \<Rightarrow> (ch # p) # ps))"

definition NewFromString :: "string \<Rightarrow> parseError + Decimal" where
  "NewFromString s =
     (if CHR ''e'' \<in> set s \<or> CHR ''E'' \<in> set s then Inl ErrNotModelled
      else
     (case splitDot s of
        [p] \<Rightarrow>
          (case bigSetString s of
             None \<Rightarrow> Inl ErrNotANumber
           | Some v \<Rightarrow> Inr \<lparr>dvalue = v, dexp = 0\<rparr>)
      | [p0, p1] \<Rightarrow>
          (case bigSetString (p0 @ p1) of
             None \<Rightarrow> Inl ErrNotANumber
           | Some v \<Rightarrow> Inr \<lparr>dvalue = v, dexp = - int (length p1)\<rparr>)
      | _ \<Rightarrow> Inl ErrTooManyDots))"

definition decimalMul :: "Decimal \<Rightarrow> Decimal \<Rightarrow> Decimal" where
  "decimalMul d d2 = \<lparr>dvalue = dvalue d * dvalue d2, dexp = dexp d + dexp d2\<rparr>"

definition rescale :: "Decimal \<Rightarrow> int \<Rightarrow> Decimal" where
  "rescale d e =
     (let expScale = 10 ^ nat \<bar>e - dexp d\<bar> in
      if e > dexp d then \<lparr>dvalue = bigQuo (dvalue d) expScale, dexp = e\<rparr>
      else if e < dexp d then \<lparr>dvalue = dvalue d * expScale, dexp = e\<rparr>
      else \<lparr>dvalue = dvalue d, dexp = e\<rparr>)"

definition decimalCmp :: "Decimal \<Rightarrow> Decimal \<Rightarrow> int" where
  "decimalCmp d d2 =
     (let baseExp = min (dexp d) (dexp d2);
          v = dvalue (rescale d baseExp);
          v2 = dvalue (rescale d2 baseExp)
      in if v < v2 then - 1 else if v = v2 then 0 else 1)"

definition QuoRem :: "Decimal \<Rightarrow> Decimal \<Rightarrow> int \<Rightarrow> (Decimal \<times> Decimal) option" where
  "QuoRem d d2 precision =
     (if dvalue d2 = 0 then None
      else
     (let scale = - precision;
          e = dexp d - dexp d2 - scale;
          aa = (if e < 0 then dvalue d else dvalue d * 10 ^ nat e);
          bb = (if e < 0 then dvalue d2 * 10 ^ nat (- e) else dvalue d2);
          scalerest = (if e < 0 then dexp d else scale + dexp d2)
      in Some (\<lparr>dvalue = bigQuo aa bb, dexp = scale\<rparr>,
               \<lparr>dvalue = bigRem aa bb, dexp = scalerest\<rparr>)))"

definition DivRound :: "Decimal \<Rightarrow> Decimal \<Rightarrow> int \<Rightarrow> Decimal option" where
  "DivRound d d2 precision =
     (case QuoRem d d2 precision of
        None \<Rightarrow> None
      | Some (q, r) \<Rightarrow>
     (let r2 = \<lparr>dvalue = \<bar>dvalue r\<bar> * 2, dexp = dexp r + precision\<rparr>;
          cmp = decimalCmp r2 \<lparr>dvalue = \<bar>dvalue d2\<bar>, dexp = dexp d2\<rparr>
      in if cmp < 0 then Some q
         else if sgn (dvalue d) * sgn (dvalue d2) < 0
         then Some \<lparr>dvalue = dvalue q - 1, dexp = dexp q\<rparr>
         else Some \<lparr>dvalue = dvalue q + 1, dexp = dexp q\<rparr>))"

definition Truncate :: "Decimal \<Rightarrow> int \<Rightarrow> Decimal" where
  "Truncate d precision =
     (if precision \<ge> 0 \<and> - precision > dexp d then rescale d (- precision) else d)"

fun trimTrailingZeros :: "string \<Rightarrow> string" where
  "trimTrailingZeros [] = []"
| "trimTrailingZeros (ch # cs) =
     (case trimTrailingZeros cs of
        [] \<Rightarrow> (if ch = CHR ''0'' then [] else [ch])
      | r # rs \<Rightarrow> ch # r # rs)"

definition decimalString :: "Decimal \<Rightarrow> string" where
  "decimalString d =
     (if dexp d \<ge> 0 then bigString (dvalue (rescale d 0))
      else
     (let str = natString (nat \<bar>dvalue d\<bar>);
          n = nat (- dexp d);
          intPart = (if length str > n then take (length str - n) str else ''0'');
          fractionalPart =
            trimTrailingZeros
              (if length str > n then drop (length str - n) str
               else replicate (n - length str) (CHR ''0'') @ str);
          number = (if fractionalPart = [] then intPart
                    else intPart @ CHR ''.'' # fractionalPart)
      in if dvalue d < 0 then CHR ''-'' # number else number))"

text \<open>
  Modelled from the spec: \<^verbatim>\<open>uint128.FromBytes\<close> and \<^verbatim>\<open>GetBytes\<close> are not among the
  sources. A balance is 16 bytes, big-endian.
\<close>

definition FromBytes :: "byte list \<Rightarrow> balance" where
  "FromBytes data = foldl (\<lambda>acc b. acc * 256 + ucast b) 0 data"

definition GetBytes :: "balance \<Rightarrow> byte list" where
  "GetBytes b = map (\<lambda>i. ucast (drop_bit (8 * (15 - i)) b)) [0..<16]"

definition BalanceSize :: nat where
  "BalanceSize = 16"

definition BalanceMaxPrecision :: int where
  "BalanceMaxPrecision = 33"

definition units :: "string \<rightharpoonup> Decimal" where
  "units = map_of
     [(''raw'', decimalNew 1 0),
      (''uxrb'', decimalNew 1 18),
      (''mxrb'', decimalNew 1 21),
      (''xrb'', decimalNew 1 24),
      (''kxrb'', decimalNew 1 27),
      (''Mxrb'', decimalNew 1 30),
      (''Gxrb'', decimalNew 1 33)]"

text \<open>Indexing the Go map \<^verbatim>\<open>units\<close> with a missing key gives the zero \<^verbatim>\<open>Decimal\<close>.\<close>

definition unitsAt :: "string \<Rightarrow> Decimal" where
  "unitsAt unit = (case units unit of None \<Rightarrow> decimalNew 0 0 | Some d \<Rightarrow> d)"

definition UnmarshalBinary :: "byte list \<Rightarrow> error + balance" where
  "UnmarshalBinary data =
     (if length data \<noteq> BalanceSize then Inl ErrBadBalanceSize
      else Inr (FromBytes data))"

definition ParseBalance :: "string \<Rightarrow> string \<Rightarrow> (parseError + error) + balance" where
  "ParseBalance s unit =
     (case NewFromString s of
        Inl err \<Rightarrow> Inl (Inl err)
      | Inr d0 \<Rightarrow>
     (let d = decimalMul d0 (unitsAt unit);
          c = dvalue d;
          f = bigPow 10 (dexp d);
          i = c * f
      in case UnmarshalBinary (bigBytes i) of
           Inl err \<Rightarrow> Inl (Inr err)
         | Inr balance \<Rightarrow> Inr balance))"

definition BigInt :: "balance \<Rightarrow> int" where
  "BigInt b = bigSetBytes (GetBytes b)"

definition UnitString :: "balance \<Rightarrow> string \<Rightarrow> int \<Rightarrow> string option" where
  "UnitString b unit precision =
     (let d = decimalNew (BigInt b) 0 in
      case DivRound d (unitsAt unit) BalanceMaxPrecision of
        None \<Rightarrow> None
      | Some q \<Rightarrow> Some (decimalString (Truncate q precision)))"

definition BalanceString :: "balance \<Rightarrow> string option" where
  "BalanceString b = UnitString b ''Mxrb'' BalanceMaxPrecision"

section \<open>A concrete ledger\<close>

text \<open>
  An instance of the cryptographic parameters and a few blocks, for running the model
  on examples: the hash of a block is its work value, a block is valid when that is not
  zero, and the signature of an address is the address itself.
\<close>

definition fixtureHash :: "block \<Rightarrow> hash" where
  "fixtureHash blk =
     (case blk of
        Open b \<Rightarrow> ucast (OpenWork b)
      | Send b \<Rightarrow> ucast (SendWork b)
      | Receive b \<Rightarrow> ucast (ReceiveWork b)
      | Change b \<Rightarrow> ucast (ChangeWork b)
      | Other n r \<Rightarrow> of_nat n)"

definition fixtureCrypto :: crypto where
  "fixtureCrypto =
     \<lparr>Hash = fixtureHash,
      Valid = (\<lambda>blk. fixtureHash blk \<noteq> 0),
      Verify = (\<lambda>a h s. s = ucast a)\<rparr>"

definition genesisBlock :: OpenBlock where
  "genesisBlock = \<lparr>OpenAddress = 1, OpenRepresentative = 7, OpenSourceHash = 0,
     OpenSignature = 1, OpenWork = 100\<rparr>"

definition genesisOptions :: LedgerOptions where
  "genesisOptions = \<lparr>GenesisBlock = genesisBlock, GenesisBalance = 1000\<rparr>"

definition genesisStore :: store where
  "genesisStore = fst (NewLedger fixtureCrypto emptyStore genesisOptions)"

definition sendBlock :: SendBlock where
  "sendBlock = \<lparr>SendPreviousHash = 100, SendDestination = 2, SendBalance = 990,
     SendSignature = 1, SendWork = 101\<rparr>"

definition zeroSpendBlock :: SendBlock where
  "zeroSpendBlock = \<lparr>SendPreviousHash = 100, SendDestination = 2, SendBalance = 1000,
     SendSignature = 1, SendWork = 105\<rparr>"

definition openBlock :: OpenBlock where
  "openBlock = \<lparr>OpenAddress = 2, OpenRepresentative = 3, OpenSourceHash = 101,
     OpenSignature = 2, OpenWork = 102\<rparr>"

definition openAgainBlock :: OpenBlock where
  "openAgainBlock = \<lparr>OpenAddress = 2, OpenRepresentative = 3, OpenSourceHash = 101,
     OpenSignature = 2, OpenWork = 103\<rparr>"

definition receiveAgainBlock :: ReceiveBlock where
  "receiveAgainBlock = \<lparr>ReceivePreviousHash = 102, ReceiveSourceHash = 101,
     ReceiveSignature = 2, ReceiveWork = 106\<rparr>"

definition changeBlock :: ChangeBlock where
  "changeBlock = \<lparr>ChangePreviousHash = 100, ChangeRepresentative = 5,
     ChangeSignature = 1, ChangeWork = 104\<rparr>"

definition afterSendStore :: store where
  "afterSendStore = fst (AddBlock fixtureCrypto genesisStore (Send sendBlock))"

definition afterOpenStore :: store where
  "afterOpenStore = fst (AddBlock fixtureCrypto afterSendStore (Open openBlock))"

text \<open>
  Calls of the ledger's interface one after the other, each on the store the call
  before it has committed.
\<close>

datatype call = CallAddBlock block | CallAddBlocks "block list"

fun runCall :: "crypto \<Rightarrow> store \<Rightarrow> call \<Rightarrow> store" where
  "runCall c db (CallAddBlock blk) = fst (AddBlock c db blk)"
| "runCall c db (CallAddBlocks blks) = fst (AddBlocks c db blks)"

definition runCalls :: "crypto \<Rightarrow> store \<Rightarrow> call list \<Rightarrow> store" where
  "runCalls c db calls = foldl (runCall c) db calls"

text \<open>
  An account that has claimed a send: the account has a record, the pending record of
  the account and the send is gone, and the send block is stored.
\<close>

definition claimed :: "address \<Rightarrow> hash \<Rightarrow> store \<Rightarrow> bool" where
  "claimed a s t \<longleftrightarrow>
     addresses t a \<noteq> None \<and> pendings t (a, s) = None \<and> blocks t s \<noteq> None"

section \<open>Unfolding the model\<close>

lemmas txn_defs = TxnEmpty_def TxnAddBlock_def TxnGetBlock_def TxnHasBlock_def
  TxnAddAddress_def TxnGetAddress_def TxnUpdateAddress_def TxnAddFrontier_def
  TxnGetFrontier_def TxnDeleteFrontier_def TxnAddPending_def TxnGetPending_def
  TxnDeletePending_def setRepresentation_def GetRepresentation_def AddRepresentation_def
  SubRepresentation_def

lemmas balance_defs = BalanceCompare_def BalanceAdd_def BalanceSub_def ZeroBalance_def

lemmas ledger_defs = getRepresentative_def addOpenBlock_def addSendBlock_def
  addReceiveBlock_def addChangeBlock_def addBlock_def AddBlock_def AddBlocks_def
  setGenesis_def NewLedger_def Update_def

lemmas fixture_defs = fixtureHash_def fixtureCrypto_def genesisBlock_def genesisOptions_def
  sendBlock_def zeroSpendBlock_def openBlock_def openAgainBlock_def receiveAgainBlock_def
  changeBlock_def emptyStore_def

declare natBytes.simps [simp del] natString.simps [simp del]

lemma TxnHasBlock_iff: "TxnHasBlock t h \<longleftrightarrow> blocks t h \<noteq> None"
  by (simp add: TxnHasBlock_def split: option.splits)

lemma genesisStore_eq:
  "genesisStore =
     \<lparr>blocks = [100 \<mapsto> Open genesisBlock],
      addresses = [1 \<mapsto> \<lparr>HeadBlock = 100, RepBlock = 100, OpenBlock = 100, Balance = 1000\<rparr>],
      frontiers = [100 \<mapsto> 1], pendings = Map.empty, representations = Map.empty\<rparr>"
  by (simp add: genesisStore_def txn_defs ledger_defs fixture_defs)

lemmas eval_defs = genesisStore_eq txn_defs ledger_defs fixture_defs balance_defs

lemma afterSendStore_eq:
  "afterSendStore =
     \<lparr>blocks = [100 \<mapsto> Open genesisBlock, 101 \<mapsto> Send sendBlock],
      addresses = [1 \<mapsto> \<lparr>HeadBlock = 101, RepBlock = 100, OpenBlock = 100, Balance = 990\<rparr>],
      frontiers = [100 \<mapsto> 1, 101 \<mapsto> 1],
      pendings = [(2, 101) \<mapsto> \<lparr>Address = 1, Amount = 10\<rparr>],
      representations = [7 \<mapsto> 0 - 990]\<rparr>"
  by (simp add: afterSendStore_def eval_defs)

lemma afterOpenStore_eq:
  "afterOpenStore =
     \<lparr>blocks = [100 \<mapsto> Open genesisBlock, 101 \<mapsto> Send sendBlock, 102 \<mapsto> Open openBlock],
      addresses = [1 \<mapsto> \<lparr>HeadBlock = 101, RepBlock = 100, OpenBlock = 100, Balance = 990\<rparr>,
                   2 \<mapsto> \<lparr>HeadBlock = 102, RepBlock = 102, OpenBlock = 102, Balance = 10\<rparr>],
      frontiers = [100 \<mapsto> 1, 101 \<mapsto> 1, 102 \<mapsto> 2],
      pendings = Map.empty,
      representations = [7 \<mapsto> 0 - 990, 3 \<mapsto> 10]\<rparr>"
  by (simp add: afterOpenStore_def afterSendStore_eq) (simp add: eval_defs)

section \<open>Order of the checks of addBlock\<close>

text \<open>
  Claim C7. \<^verbatim>\<open>addBlock\<close> checks in a fixed order: a block whose proof of work is
  invalid fails with \<open>ErrBadWork\<close> whatever else holds; otherwise a block whose hash is
  stored fails with \<open>ErrBlockExists\<close>; otherwise a block whose root is not stored fails
  with \<open>ErrMissingPrevious\<close>; only when all three checks pass does the block reach the
  handler of its type. In the three failing cases the transaction is left as it was.
\<close>

theorem addBlock_check_order:
  "(\<not> Valid c blk \<longrightarrow> addBlock c t blk = (t, Err ErrBadWork)) \<and>
   (Valid c blk \<and> TxnHasBlock t (Hash c blk) \<longrightarrow> addBlock c t blk = (t, Err ErrBlockExists)) \<and>
   (Valid c blk \<and> \<not> TxnHasBlock t (Hash c blk) \<and> \<not> TxnHasBlock t (Root blk) \<longrightarrow>
      addBlock c t blk = (t, Err ErrMissingPrevious)) \<and>
   (Valid c blk \<and> \<not> TxnHasBlock t (Hash c blk) \<and> TxnHasBlock t (Root blk) \<longrightarrow>
      addBlock c t blk = dispatch c t blk)"
  by (simp add: addBlock_def Let_def)

theorem addBlock_check_order_witness:
  "addBlock fixtureCrypto genesisStore (Other 0 100) = (genesisStore, Err ErrBadWork) \<and>
   addBlock fixtureCrypto genesisStore (Open genesisBlock) = (genesisStore, Err ErrBlockExists) \<and>
   addBlock fixtureCrypto genesisStore (Open openBlock) = (genesisStore, Err ErrMissingPrevious) \<and>
   addBlock fixtureCrypto genesisStore (Send sendBlock) =
     dispatch fixtureCrypto genesisStore (Send sendBlock)"
proof (intro conjI)
  show "addBlock fixtureCrypto genesisStore (Other 0 100) = (genesisStore, Err ErrBadWork)"
    by (rule addBlock_check_order [THEN conjunct1, THEN mp])
       (simp add: fixture_defs)
  show "addBlock fixtureCrypto genesisStore (Open genesisBlock) =
          (genesisStore, Err ErrBlockExists)"
    by (rule addBlock_check_order [THEN conjunct2, THEN conjunct1, THEN mp])
       (simp add: genesisStore_eq TxnHasBlock_def fixture_defs)
  show "addBlock fixtureCrypto genesisStore (Open openBlock) =
          (genesisStore, Err ErrMissingPrevious)"
    by (rule addBlock_check_order [THEN conjunct2, THEN conjunct2, THEN conjunct1, THEN mp])
       (simp add: genesisStore_eq TxnHasBlock_def fixture_defs)
  show "addBlock fixtureCrypto genesisStore (Send sendBlock) =
          dispatch fixtureCrypto genesisStore (Send sendBlock)"
    by (rule addBlock_check_order [THEN conjunct2, THEN conjunct2, THEN conjunct2, THEN mp])
       (simp add: genesisStore_eq TxnHasBlock_def fixture_defs)
qed

section \<open>The panicking branch of the type switch\<close>

lemma handlers_no_panic:
  "snd (addOpenBlock c t ob) \<noteq> Panic m"
  "snd (addSendBlock c t sb) \<noteq> Panic m"
  "snd (addReceiveBlock c t rb) \<noteq> Panic m"
  "snd (addChangeBlock c t cb) \<noteq> Panic m"
  by (simp_all add: addOpenBlock_def addSendBlock_def addReceiveBlock_def addChangeBlock_def
      Let_def split: sum.splits)

text \<open>
  Claim C10. For a block of one of the four types Open, Send, Receive or Change the
  dispatch of \<^verbatim>\<open>addBlock\<close> never panics; the only panic of \<^verbatim>\<open>addBlock\<close> is the one with
  the message "bad block type", and a value of the block interface that is none of the
  four types, once it has passed the three checks, makes \<^verbatim>\<open>addBlock\<close> panic with it
  instead of returning an error.
\<close>

theorem addBlock_panic:
  "((\<forall>n r. blk \<noteq> Other n r) \<longrightarrow> snd (addBlock c t blk) \<noteq> Panic m) \<and>
   (snd (addBlock c t blk) = Panic m \<longrightarrow> m = ''bad block type'') \<and>
   ((\<exists>n r. blk = Other n r) \<and> Valid c blk \<and> \<not> TxnHasBlock t (Hash c blk) \<and>
      TxnHasBlock t (Root blk) \<longrightarrow> addBlock c t blk = (t, Panic ''bad block type''))"
  by (cases blk) (auto simp add: addBlock_def Let_def handlers_no_panic)

theorem addBlock_panic_witness:
  "snd (addBlock fixtureCrypto genesisStore (Send sendBlock)) \<noteq> Panic ''bad block type'' \<and>
   addBlock fixtureCrypto genesisStore (Other 5 100) = (genesisStore, Panic ''bad block type'')"
proof (intro conjI)
  show "snd (addBlock fixtureCrypto genesisStore (Send sendBlock)) \<noteq> Panic ''bad block type''"
    by (rule addBlock_panic [THEN conjunct1, THEN mp]) simp
  show "addBlock fixtureCrypto genesisStore (Other 5 100) =
          (genesisStore, Panic ''bad block type'')"
    by (rule addBlock_panic [THEN conjunct2, THEN conjunct2, THEN mp])
       (simp add: genesisStore_eq TxnHasBlock_def fixture_defs)
qed

section \<open>Change blocks\<close>

text \<open>
  \<^verbatim>\<open>addChangeBlock\<close> writes the hash of the new block into \<open>RepBlock\<close> and only then asks
  \<^verbatim>\<open>getRepresentative\<close> for the old representative, which reads the block stored under
  \<open>RepBlock\<close>. If that block is not stored the lookup fails; if it is stored, the
  \<^verbatim>\<open>AddBlock\<close> of the last step fails. So no call of \<^verbatim>\<open>addChangeBlock\<close> returns \<^verbatim>\<open>nil\<close>.
\<close>

lemma addChangeBlock_never_Ok: "snd (addChangeBlock c t blk) \<noteq> Ok"
  by (auto simp add: addChangeBlock_def Let_def TxnUpdateAddress_def getRepresentative_def
      TxnGetAddress_def TxnGetBlock_def SubRepresentation_def AddRepresentation_def
      GetRepresentation_def setRepresentation_def TxnDeleteFrontier_def TxnAddFrontier_def
      TxnAddBlock_def
      split: sum.splits option.splits block.splits if_splits)

text \<open>
  Claim C1. A successfully applied Change block naming representative R2, on an account
  with balance B and representative R1, takes B from the representation of R1, adds B to
  that of R2 and sets the account's rep-block and head-block to the hash of the block.
  The code does not get there: no Change block is ever applied. On the ledger that holds
  the genesis block only, a valid Change block of the genesis account fails with the
  store's error for a missing key, and the store stays as it was.
\<close>

theorem Change_block_never_applies:
  "snd (addChangeBlock c t blk) \<noteq> Ok \<and>
   AddBlock fixtureCrypto genesisStore (Change changeBlock) = (genesisStore, Err ErrKeyNotFound)"
proof
  show "snd (addChangeBlock c t blk) \<noteq> Ok"
    by (rule addChangeBlock_never_Ok)
  show "AddBlock fixtureCrypto genesisStore (Change changeBlock) =
          (genesisStore, Err ErrKeyNotFound)"
    by (simp add: eval_defs)
qed

section \<open>Frontiers\<close>

lemma AddBlock_send_Ok:
  "snd (AddBlock fixtureCrypto genesisStore (Send sendBlock)) = Ok"
  by (simp add: eval_defs)

text \<open>
  Claim C2. After a successfully applied Send, Receive or Change block with hash \<open>h\<close> the
  frontier keyed by the previous block is deleted and a frontier for \<open>h\<close> added, so that an
  account has exactly one frontier, that of its head block. The handlers call
  \<^verbatim>\<open>DeleteFrontier(hash)\<close> with the hash of the new block: the frontier of the previous block
  stays. After a valid Send block on the genesis ledger the genesis account has two
  frontiers, one of them for a block that is not its head.
\<close>

theorem Send_leaves_old_frontier:
  "snd (AddBlock fixtureCrypto genesisStore (Send sendBlock)) = Ok \<and>
   frontiers afterSendStore (SendPreviousHash sendBlock) = Some 1 \<and>
   frontiers afterSendStore (Hash fixtureCrypto (Send sendBlock)) = Some 1 \<and>
   SendPreviousHash sendBlock \<noteq> Hash fixtureCrypto (Send sendBlock) \<and>
   map_option HeadBlock (addresses afterSendStore 1) = Some (Hash fixtureCrypto (Send sendBlock))"
  by (simp add: AddBlock_send_Ok afterSendStore_eq) (simp add: fixture_defs)

section \<open>Failed blocks and the committed store\<close>

text \<open>\<^verbatim>\<open>AddBlock\<close> commits nothing when the block fails.\<close>

lemma AddBlock_failure_keeps_store:
  "snd (AddBlock c db blk) \<noteq> Ok \<Longrightarrow> fst (AddBlock c db blk) = db"
  by (simp add: AddBlock_def Update_def split: prod.splits ret.splits)

text \<open>
  Claim C3. A block that fails leaves the committed store as it was, through \<^verbatim>\<open>AddBlock\<close>
  and as an element of a batch given to \<^verbatim>\<open>AddBlocks\<close>. \<^verbatim>\<open>AddBlocks\<close> runs the whole batch in
  one transaction, goes on after an error and returns \<^verbatim>\<open>nil\<close>, so what a failed block
  had written before it failed is committed. For a batch of one Change block on the
  genesis ledger: the block fails, the batch succeeds, and the account's head and
  rep-block are now the hash of a block that is not stored.
\<close>

theorem AddBlocks_commits_failed_block:
  "snd (addBlock fixtureCrypto genesisStore (Change changeBlock)) = Err ErrKeyNotFound \<and>
   AddBlocks fixtureCrypto genesisStore [Change changeBlock] =
     (genesisStore\<lparr>addresses :=
        [1 \<mapsto> \<lparr>HeadBlock = 104, RepBlock = 104, OpenBlock = 100, Balance = 1000\<rparr>]\<rparr>, Ok) \<and>
   addresses genesisStore 1 =
     Some \<lparr>HeadBlock = 100, RepBlock = 100, OpenBlock = 100, Balance = 1000\<rparr> \<and>
   blocks genesisStore 104 = None"
  by (simp add: eval_defs)

section \<open>Representation\<close>

text \<open>
  Claim C4, as stated: \<^verbatim>\<open>SubRepresentation(a, m)\<close> fails when \<open>m\<close> exceeds the current
  representation of \<open>a\<close>, and leaves the value unchanged. It does not: on the empty store
  the representation of an address is zero, subtracting 1 returns no error and stores
  the result of \<^verbatim>\<open>Balance.Sub\<close>, here the largest 128-bit value.
\<close>

theorem SubRepresentation_underflow_counterexample:
  "GetRepresentation emptyStore 7 = Inr 0 \<and> (0 :: balance) < 1 \<and>
   SubRepresentation emptyStore 7 1 =
     Inr (emptyStore\<lparr>representations := [7 \<mapsto> BalanceSub 0 1]\<rparr>) \<and>
   unat (BalanceSub 0 1) = 340282366920938463463374607431768211455"
  by (simp add: txn_defs balance_defs emptyStore_def unsigned_minus_1_eq_mask mask_eq_exp_minus_1)

text \<open>
  Claim C4, amended. \<^verbatim>\<open>SubRepresentation(a, m)\<close> returns no error for any address and
  amount, also when \<open>m\<close> exceeds the current value \<open>cur\<close> of \<open>a\<close>: it stores the result of
  \<^verbatim>\<open>Balance.Sub\<close> on \<open>cur\<close> and \<open>m\<close>, which has no error result, and leaves the rest of the
  store as it was. When \<open>m\<close> does not exceed \<open>cur\<close> the stored value is their difference.
\<close>

theorem SubRepresentation_returns:
  "GetRepresentation t a = Inr cur \<Longrightarrow>
     SubRepresentation t a m =
       Inr (t\<lparr>representations := (representations t)(a \<mapsto> BalanceSub cur m)\<rparr>) \<and>
     (m \<le> cur \<longrightarrow> unat (BalanceSub cur m) = unat cur - unat m)"
  by (auto simp add: txn_defs balance_defs unat_sub split: option.splits)

theorem SubRepresentation_returns_witness:
  "GetRepresentation afterOpenStore 3 = Inr 10 \<and>
   SubRepresentation afterOpenStore 3 4 =
     Inr (afterOpenStore\<lparr>representations := (representations afterOpenStore)(3 \<mapsto> 6)\<rparr>) \<and>
   unat (BalanceSub 10 4) = 6"
proof -
  have g: "GetRepresentation afterOpenStore 3 = Inr 10"
    by (simp add: afterOpenStore_def afterSendStore_eq eval_defs)
  have le: "(4 :: balance) \<le> 10" by simp
  have s: "BalanceSub 10 4 = 6" by (simp add: BalanceSub_def)
  from SubRepresentation_returns [OF g, of 4] le g s show ?thesis by simp
qed

section \<open>Send blocks\<close>

text \<open>
  Claim C5. For a Send block on an account with balance \<open>B\<close> (the frontier of the previous
  block names the account, the signature verifies and the account's head is the previous
  block): when the block's balance \<open>b\<close> is not below \<open>B\<close> the block fails with the
  negative-or-zero-spend error and the transaction is as before. Otherwise the handler
  adds the pending record of the destination and the block's hash with the account as
  origin and amount \<open>B - b\<close> (which does not wrap), and sets the account's head to the hash
  and its balance to \<open>b\<close>; the only way not to do so is that such a pending record
  already exists. Both writes are in the transaction whatever the later steps do.
\<close>

theorem addSendBlock_spend:
  assumes "frontiers t (SendPreviousHash blk) = Some a"
    and "Verify c a (Hash c (Send blk)) (SendSignature blk)"
    and "addresses t a = Some info"
    and "HeadBlock info = SendPreviousHash blk"
  shows "(Balance info \<le> SendBalance blk \<longrightarrow>
           addSendBlock c t blk =
             (t, Err (NegativeOrZeroSpend (SendBalance blk) (Balance info)))) \<and>
         (SendBalance blk < Balance info \<longrightarrow>
           unat (BalanceSub (Balance info) (SendBalance blk)) =
             unat (Balance info) - unat (SendBalance blk) \<and>
           (pendings t (SendDestination blk, Hash c (Send blk)) \<noteq> None \<longrightarrow>
              addSendBlock c t blk =
                (t, Err (ErrorString ''pending transaction already exists''))) \<and>
           (pendings t (SendDestination blk, Hash c (Send blk)) = None \<longrightarrow>
              pendings (fst (addSendBlock c t blk)) (SendDestination blk, Hash c (Send blk)) =
                Some \<lparr>Address = a,
                      Amount = BalanceSub (Balance info) (SendBalance blk)\<rparr> \<and>
              addresses (fst (addSendBlock c t blk)) a =
                Some (info\<lparr>HeadBlock := Hash c (Send blk), Balance := SendBalance blk\<rparr>)))"
proof (intro conjI impI)
  assume "Balance info \<le> SendBalance blk"
  with assms show "addSendBlock c t blk =
      (t, Err (NegativeOrZeroSpend (SendBalance blk) (Balance info)))"
    by (auto simp add: addSendBlock_def Let_def TxnGetFrontier_def TxnGetAddress_def
        BalanceCompare_def)
next
  assume "SendBalance blk < Balance info"
  then show "unat (BalanceSub (Balance info) (SendBalance blk)) =
      unat (Balance info) - unat (SendBalance blk)"
    by (simp add: BalanceSub_def unat_sub)
next
  assume "SendBalance blk < Balance info"
    "pendings t (SendDestination blk, Hash c (Send blk)) \<noteq> None"
  with assms show "addSendBlock c t blk =
      (t, Err (ErrorString ''pending transaction already exists''))"
    by (auto simp add: addSendBlock_def Let_def TxnGetFrontier_def TxnGetAddress_def
        BalanceCompare_def TxnAddPending_def)
next
  assume "SendBalance blk < Balance info"
    "pendings t (SendDestination blk, Hash c (Send blk)) = None"
  with assms show "pendings (fst (addSendBlock c t blk))
        (SendDestination blk, Hash c (Send blk)) =
      Some \<lparr>Address = a, Amount = BalanceSub (Balance info) (SendBalance blk)\<rparr>"
    by (auto simp add: addSendBlock_def Let_def txn_defs BalanceCompare_def
        split: sum.splits option.splits)
next
  assume "SendBalance blk < Balance info"
    "pendings t (SendDestination blk, Hash c (Send blk)) = None"
  with assms show "addresses (fst (addSendBlock c t blk)) a =
      Some (info\<lparr>HeadBlock := Hash c (Send blk), Balance := SendBalance blk\<rparr>)"
    by (auto simp add: addSendBlock_def Let_def txn_defs BalanceCompare_def
        split: sum.splits option.splits)
qed

theorem addSendBlock_spend_witness:
  "addSendBlock fixtureCrypto genesisStore zeroSpendBlock =
     (genesisStore, Err (NegativeOrZeroSpend 1000 1000)) \<and>
   addSendBlock fixtureCrypto genesisStore sendBlock = (afterSendStore, Ok) \<and>
   pendings afterSendStore (2, 101) = Some \<lparr>Address = 1, Amount = 10\<rparr> \<and>
   addresses afterSendStore 1 =
     Some \<lparr>HeadBlock = 101, RepBlock = 100, OpenBlock = 100, Balance = 990\<rparr>"
proof -
  let ?info = "\<lparr>HeadBlock = 100, RepBlock = 100, OpenBlock = 100, Balance = 1000 :: balance\<rparr>"
  have z: "frontiers genesisStore (SendPreviousHash zeroSpendBlock) = Some 1"
    "Verify fixtureCrypto 1 (Hash fixtureCrypto (Send zeroSpendBlock))
       (SendSignature zeroSpendBlock)"
    "addresses genesisStore 1 = Some ?info"
    "HeadBlock ?info = SendPreviousHash zeroSpendBlock"
    "Balance ?info \<le> SendBalance zeroSpendBlock"
    by (simp_all add: genesisStore_eq fixture_defs)
  have s: "frontiers genesisStore (SendPreviousHash sendBlock) = Some 1"
    "Verify fixtureCrypto 1 (Hash fixtureCrypto (Send sendBlock)) (SendSignature sendBlock)"
    "addresses genesisStore 1 = Some ?info"
    "HeadBlock ?info = SendPreviousHash sendBlock"
    "SendBalance sendBlock < Balance ?info"
    "pendings genesisStore (SendDestination sendBlock, Hash fixtureCrypto (Send sendBlock)) =
       None"
    by (simp_all add: genesisStore_eq fixture_defs)
  have ok: "addSendBlock fixtureCrypto genesisStore sendBlock = (afterSendStore, Ok)"
    by (simp add: afterSendStore_eq) (simp add: eval_defs)
  have fail: "addSendBlock fixtureCrypto genesisStore zeroSpendBlock =
      (genesisStore, Err (NegativeOrZeroSpend 1000 1000))"
    using addSendBlock_spend [OF z(1-4), THEN conjunct1, THEN mp, OF z(5)]
    by (simp add: fixture_defs)
  have eff: "pendings (fst (addSendBlock fixtureCrypto genesisStore sendBlock))
        (SendDestination sendBlock, Hash fixtureCrypto (Send sendBlock)) =
        Some \<lparr>Address = 1, Amount = BalanceSub (Balance ?info) (SendBalance sendBlock)\<rparr> \<and>
      addresses (fst (addSendBlock fixtureCrypto genesisStore sendBlock)) 1 =
        Some (?info\<lparr>HeadBlock := Hash fixtureCrypto (Send sendBlock),
                       Balance := SendBalance sendBlock\<rparr>)"
    using addSendBlock_spend [OF s(1-4), THEN conjunct2, THEN mp, OF s(5), THEN conjunct2,
        THEN conjunct2, THEN mp, OF s(6)] .
  note eff' = eff [unfolded ok fst_conv]
  from eff' have "pendings afterSendStore (2, 101) = Some \<lparr>Address = 1, Amount = 10\<rparr>"
    by (simp add: fixture_defs BalanceSub_def)
  moreover from eff' have "addresses afterSendStore 1 =
      Some \<lparr>HeadBlock = 101, RepBlock = 100, OpenBlock = 100, Balance = 990\<rparr>"
    by (simp add: fixture_defs)
  ultimately show ?thesis using fail ok by simp
qed

section \<open>Genesis\<close>

text \<open>
  Claim C8. \<^verbatim>\<open>NewLedger\<close> with a validly signed genesis block \<open>G\<close>: when the store has no
  block (and nothing under the address and the hash of \<open>G\<close>, as in the empty store) it
  installs \<open>G\<close>, the account record of \<open>G\<close> and its frontier; when the store has a block
  it succeeds if and only if the hash of \<open>G\<close> is stored, fails with \<open>ErrBadGenesis\<close>
  otherwise, and leaves the store as it was. Opening the empty store twice with \<open>G\<close>
  succeeds both times and the store then counts one block.
\<close>

theorem NewLedger_genesis:
  assumes sig: "Verify c (OpenAddress (GenesisBlock opts)) (Hash c (Open (GenesisBlock opts)))
                  (OpenSignature (GenesisBlock opts))"
  shows "(TxnEmpty db \<and> addresses db (OpenAddress (GenesisBlock opts)) = None \<and>
            frontiers db (Hash c (Open (GenesisBlock opts))) = None \<longrightarrow>
          NewLedger c db opts =
            (db\<lparr>blocks := (blocks db)(Hash c (Open (GenesisBlock opts)) \<mapsto>
                     Open (GenesisBlock opts)),
                addresses := (addresses db)(OpenAddress (GenesisBlock opts) \<mapsto>
                     \<lparr>HeadBlock = Hash c (Open (GenesisBlock opts)),
                      RepBlock = Hash c (Open (GenesisBlock opts)),
                      OpenBlock = Hash c (Open (GenesisBlock opts)),
                      Balance = GenesisBalance opts\<rparr>),
                frontiers := (frontiers db)(Hash c (Open (GenesisBlock opts)) \<mapsto>
                     OpenAddress (GenesisBlock opts))\<rparr>, Ok)) \<and>
         (\<not> TxnEmpty db \<longrightarrow>
            (snd (NewLedger c db opts) = Ok \<longleftrightarrow>
               TxnHasBlock db (Hash c (Open (GenesisBlock opts)))) \<and>
            (\<not> TxnHasBlock db (Hash c (Open (GenesisBlock opts))) \<longrightarrow>
               NewLedger c db opts = (db, Err ErrBadGenesis)) \<and>
            fst (NewLedger c db opts) = db) \<and>
         snd (NewLedger c emptyStore opts) = Ok \<and>
         NewLedger c (fst (NewLedger c emptyStore opts)) opts =
           (fst (NewLedger c emptyStore opts), Ok) \<and>
         CountBlocks (fst (NewLedger c emptyStore opts)) = 1"
proof (intro conjI impI)
  assume "TxnEmpty db \<and> addresses db (OpenAddress (GenesisBlock opts)) = None \<and>
            frontiers db (Hash c (Open (GenesisBlock opts))) = None"
  with sig show "NewLedger c db opts =
            (db\<lparr>blocks := (blocks db)(Hash c (Open (GenesisBlock opts)) \<mapsto>
                     Open (GenesisBlock opts)),
                addresses := (addresses db)(OpenAddress (GenesisBlock opts) \<mapsto>
                     \<lparr>HeadBlock = Hash c (Open (GenesisBlock opts)),
                      RepBlock = Hash c (Open (GenesisBlock opts)),
                      OpenBlock = Hash c (Open (GenesisBlock opts)),
                      Balance = GenesisBalance opts\<rparr>),
                frontiers := (frontiers db)(Hash c (Open (GenesisBlock opts)) \<mapsto>
                     OpenAddress (GenesisBlock opts))\<rparr>, Ok)"
    by (auto simp add: NewLedger_def setGenesis_def Update_def Let_def txn_defs
        split: option.splits)
next
  assume "\<not> TxnEmpty db"
  with sig show "snd (NewLedger c db opts) = Ok \<longleftrightarrow>
      TxnHasBlock db (Hash c (Open (GenesisBlock opts)))"
    by (simp add: NewLedger_def setGenesis_def Update_def Let_def)
next
  assume "\<not> TxnEmpty db" "\<not> TxnHasBlock db (Hash c (Open (GenesisBlock opts)))"
  with sig show "NewLedger c db opts = (db, Err ErrBadGenesis)"
    by (simp add: NewLedger_def setGenesis_def Update_def Let_def)
next
  assume "\<not> TxnEmpty db"
  with sig show "fst (NewLedger c db opts) = db"
    by (simp add: NewLedger_def setGenesis_def Update_def Let_def)
next
  from sig show "snd (NewLedger c emptyStore opts) = Ok"
    by (simp add: NewLedger_def setGenesis_def Update_def Let_def txn_defs emptyStore_def)
next
  from sig show "NewLedger c (fst (NewLedger c emptyStore opts)) opts =
           (fst (NewLedger c emptyStore opts), Ok)"
    by (simp add: NewLedger_def setGenesis_def Update_def Let_def txn_defs emptyStore_def)
next
  from sig show "CountBlocks (fst (NewLedger c emptyStore opts)) = 1"
    by (simp add: NewLedger_def setGenesis_def Update_def Let_def txn_defs emptyStore_def
        CountBlocks_def TxnCountBlocks_def)
qed

theorem NewLedger_genesis_witness:
  "NewLedger fixtureCrypto emptyStore genesisOptions = (genesisStore, Ok) \<and>
   NewLedger fixtureCrypto genesisStore genesisOptions = (genesisStore, Ok) \<and>
   CountBlocks genesisStore = 1 \<and>
   NewLedger fixtureCrypto genesisStore
     \<lparr>GenesisBlock = genesisBlock\<lparr>OpenWork := 99\<rparr>, GenesisBalance = 1000\<rparr> =
     (genesisStore, Err ErrBadGenesis)"
proof -
  have sig: "Verify fixtureCrypto (OpenAddress (GenesisBlock genesisOptions))
      (Hash fixtureCrypto (Open (GenesisBlock genesisOptions)))
      (OpenSignature (GenesisBlock genesisOptions))"
    by (simp add: fixture_defs)
  let ?other = "\<lparr>GenesisBlock = genesisBlock\<lparr>OpenWork := 99\<rparr>, GenesisBalance = 1000\<rparr>"
  have sig': "Verify fixtureCrypto (OpenAddress (GenesisBlock ?other))
      (Hash fixtureCrypto (Open (GenesisBlock ?other))) (OpenSignature (GenesisBlock ?other))"
    by (simp add: fixture_defs)
  have ne: "\<not> TxnEmpty genesisStore"
    by (simp add: genesisStore_eq TxnEmpty_def)
  have nh: "\<not> TxnHasBlock genesisStore (Hash fixtureCrypto (Open (GenesisBlock ?other)))"
    by (simp add: genesisStore_eq TxnHasBlock_def fixture_defs)
  note a = NewLedger_genesis [OF sig, of emptyStore]
  note b = NewLedger_genesis [OF sig', of genesisStore]
  have 1: "NewLedger fixtureCrypto emptyStore genesisOptions = (genesisStore, Ok)"
    using a [THEN conjunct2, THEN conjunct2, THEN conjunct1]
    by (simp add: genesisStore_def prod_eq_iff)
  have 2: "NewLedger fixtureCrypto genesisStore genesisOptions = (genesisStore, Ok)"
    using a [THEN conjunct2, THEN conjunct2, THEN conjunct2, THEN conjunct1]
    by (simp add: genesisStore_def)
  have 3: "CountBlocks genesisStore = 1"
    using a [THEN conjunct2, THEN conjunct2, THEN conjunct2, THEN conjunct2]
    by (simp add: genesisStore_def)
  have 4: "NewLedger fixtureCrypto genesisStore ?other = (genesisStore, Err ErrBadGenesis)"
    using b [THEN conjunct2, THEN conjunct1, THEN mp, OF ne, THEN conjunct2, THEN conjunct1,
        THEN mp, OF nh] .
  from 1 2 3 4 show ?thesis by simp
qed

section \<open>Parsing a printed balance\<close>

text \<open>
  \<^verbatim>\<open>ParseBalance\<close> hands \<^verbatim>\<open>big.Int.Bytes\<close> of the parsed number to \<^verbatim>\<open>UnmarshalBinary\<close>,
  which wants exactly 16 bytes. \<^verbatim>\<open>Bytes\<close> has no leading zero bytes, so the number has 16
  bytes only from \<open>2 ^ 120\<close> on: whatever the text and the unit, \<^verbatim>\<open>ParseBalance\<close> returns no
  balance below \<open>2 ^ 120\<close>.
\<close>

lemma length_natBytes_le: "n < 256 ^ k \<Longrightarrow> length (natBytes n) \<le> k"
proof (induction k arbitrary: n)
  case 0
  then show ?case by (simp add: natBytes.simps [of 0])
next
  case (Suc k)
  show ?case
  proof (cases "n = 0")
    case True
    then show ?thesis by (subst natBytes.simps) simp
  next
    case False
    from Suc.prems have "n div 256 < 256 ^ k"
      by (simp add: less_mult_imp_div_less mult.commute)
    from Suc.IH [OF this] False show ?thesis
      by (subst natBytes.simps) simp
  qed
qed

lemma length_natBytes_ge: "256 ^ k \<le> n \<Longrightarrow> k < length (natBytes n)"
proof (induction k arbitrary: n)
  case 0
  then have "n \<noteq> 0" by simp
  then show ?case by (subst natBytes.simps) simp
next
  case (Suc k)
  then have "256 ^ k \<le> n div 256"
    by (simp add: less_eq_div_iff_mult_less_eq mult.commute)
  moreover have "0 < (256::nat) ^ Suc k" by simp
  with Suc.prems have "n \<noteq> 0" by linarith
  ultimately show ?case
    using Suc.IH [of "n div 256"] by (subst natBytes.simps) simp
qed

lemma FromBytes_snoc: "FromBytes (bs @ [x]) = FromBytes bs * 256 + ucast x"
  by (simp add: FromBytes_def)

lemma FromBytes_natBytes: "FromBytes (natBytes n) = of_nat n"
proof (induction n rule: natBytes.induct)
  case (1 n)
  show ?case
  proof (cases "n = 0")
    case True
    then show ?thesis by (subst natBytes.simps) (simp add: FromBytes_def)
  next
    case False
    have "(ucast (of_nat (n mod 256) :: byte) :: balance) = of_nat (n mod 256)"
      by (simp add: unsigned_of_nat take_bit_eq_mod)
    moreover have "(of_nat (n div 256) * 256 + of_nat (n mod 256) :: balance) = of_nat n"
    proof -
      have "n div 256 * 256 + n mod 256 = n" by simp
      then have "(of_nat (n div 256 * 256 + n mod 256) :: balance) = of_nat n" by simp
      then show ?thesis by (simp only: of_nat_add of_nat_mult of_nat_numeral)
    qed
    ultimately show ?thesis
      using 1 False by (subst natBytes.simps) (simp add: FromBytes_snoc)
  qed
qed

lemma ParseBalance_result_large:
  assumes p: "ParseBalance s unit = Inr b"
  shows "2 ^ 120 \<le> unat b"
proof -
  from p obtain d0 where d0: "NewFromString s = Inr d0"
    by (cases "NewFromString s") (simp_all add: ParseBalance_def)
  define i where
    "i = dvalue (decimalMul d0 (unitsAt unit)) * bigPow 10 (dexp (decimalMul d0 (unitsAt unit)))"
  from p d0 have u: "UnmarshalBinary (bigBytes i) = Inr b"
    by (simp add: ParseBalance_def Let_def i_def split: sum.splits)
  then have len: "length (natBytes (nat \<bar>i\<bar>)) = 16"
    and b: "b = FromBytes (natBytes (nat \<bar>i\<bar>))"
    by (auto simp add: UnmarshalBinary_def BalanceSize_def bigBytes_def split: if_splits)
  have lo: "2 ^ 120 \<le> nat \<bar>i\<bar>"
  proof (rule ccontr)
    assume "\<not> 2 ^ 120 \<le> nat \<bar>i\<bar>"
    then have "nat \<bar>i\<bar> < 256 ^ 15" by simp
    from length_natBytes_le [OF this] len show False by simp
  qed
  have hi: "nat \<bar>i\<bar> < 2 ^ 128"
  proof (rule ccontr)
    assume "\<not> nat \<bar>i\<bar> < 2 ^ 128"
    then have "256 ^ 16 \<le> nat \<bar>i\<bar>" by simp
    from length_natBytes_ge [OF this] len show False by simp
  qed
  have "b = of_nat (nat \<bar>i\<bar>)"
    by (simp only: b FromBytes_natBytes)
  then have "unat b = nat \<bar>i\<bar>"
    by (rule of_nat_inverse [OF sym]) (use hi in simp)
  with lo show ?thesis by simp
qed

text \<open>
  Claim C9. Parsing the printed form of a balance gives the balance back:
  \<^verbatim>\<open>ParseBalance(b.String(), "Mxrb")\<close> succeeds and returns \<open>b\<close>. For the balance 1 (one raw)
  \<^verbatim>\<open>String\<close> prints 0.000000000000000000000000000001 and \<^verbatim>\<open>ParseBalance\<close> of that text
  fails with \<open>ErrBadBalanceSize\<close>.
\<close>

theorem ParseBalance_String_one:
  "BalanceString 1 = Some ''0.000000000000000000000000000001'' \<and>
   ParseBalance ''0.000000000000000000000000000001'' ''Mxrb'' = Inl (Inr ErrBadBalanceSize)"
  by code_simp

section \<open>Open blocks\<close>

text \<open>
  Claim C6, as stated, ends: any later Open or Receive block claiming the same account
  and source fails with \<open>ErrMissingSource\<close>. For an Open block it does not: after the
  send of the genesis account has been claimed by the Open block of account 2, a second
  valid Open block of account 2 for the same send fails with the error "account already
  exists", which \<^verbatim>\<open>addOpenBlock\<close> tests before it looks for the pending record.
\<close>

theorem second_Open_counterexample:
  "AddBlock fixtureCrypto afterSendStore (Open openBlock) = (afterOpenStore, Ok) \<and>
   OpenAddress openAgainBlock = OpenAddress openBlock \<and>
   OpenSourceHash openAgainBlock = OpenSourceHash openBlock \<and>
   AddBlock fixtureCrypto afterOpenStore (Open openAgainBlock) =
     (afterOpenStore, Err (ErrorString ''account already exists'')) \<and>
   Err (ErrorString ''account already exists'') \<noteq> Err ErrMissingSource"
proof (intro conjI)
  show "AddBlock fixtureCrypto afterSendStore (Open openBlock) = (afterOpenStore, Ok)"
    by (simp add: afterOpenStore_eq) (simp add: afterSendStore_eq eval_defs)
  show "AddBlock fixtureCrypto afterOpenStore (Open openAgainBlock) =
     (afterOpenStore, Err (ErrorString ''account already exists''))"
    by (simp add: afterOpenStore_eq eval_defs)
qed (simp_all add: fixture_defs)

text \<open>
  Once an account has claimed a send it stays so: no block, applied or failed, alone or
  in a batch, removes the account or a stored block, and a pending record is only added
  under the hash of a block that is not stored yet.
\<close>

lemma addOpenBlock_claimed:
  "claimed a s t \<Longrightarrow> claimed a s (fst (addOpenBlock c t b))"
  by (auto simp add: claimed_def addOpenBlock_def Let_def txn_defs
      split: sum.splits option.splits)

lemma addSendBlock_claimed:
  "claimed a s t \<Longrightarrow> blocks t (Hash c (Send b)) = None \<Longrightarrow>
     claimed a s (fst (addSendBlock c t b))"
  by (auto simp add: claimed_def addSendBlock_def getRepresentative_def Let_def txn_defs
      split: sum.splits option.splits block.splits)

lemma addReceiveBlock_claimed:
  "claimed a s t \<Longrightarrow> claimed a s (fst (addReceiveBlock c t b))"
  by (auto simp add: claimed_def addReceiveBlock_def getRepresentative_def Let_def txn_defs
      split: sum.splits option.splits block.splits)

lemma addChangeBlock_claimed:
  "claimed a s t \<Longrightarrow> claimed a s (fst (addChangeBlock c t b))"
  by (auto simp add: claimed_def addChangeBlock_def getRepresentative_def Let_def txn_defs
      split: sum.splits option.splits block.splits)

lemma addBlock_claimed:
  assumes "claimed a s t"
  shows "claimed a s (fst (addBlock c t blk))"
proof (cases "Valid c blk \<and> \<not> TxnHasBlock t (Hash c blk) \<and> TxnHasBlock t (Root blk)")
  case False
  with assms show ?thesis by (auto simp add: addBlock_def Let_def)
next
  case True
  then have eq: "addBlock c t blk = dispatch c t blk"
    and fresh: "blocks t (Hash c blk) = None"
    by (simp_all add: addBlock_def Let_def TxnHasBlock_iff)
  show ?thesis
  proof (cases blk)
    case (Open b)
    with assms eq show ?thesis by (simp add: addOpenBlock_claimed)
  next
    case (Send b)
    with assms eq fresh show ?thesis by (simp add: addSendBlock_claimed)
  next
    case (Receive b)
    with assms eq show ?thesis by (simp add: addReceiveBlock_claimed)
  next
    case (Change b)
    with assms eq show ?thesis by (simp add: addChangeBlock_claimed)
  next
    case (Other n r)
    with assms eq show ?thesis by simp
  qed
qed

lemma AddBlocks_loop_claimed:
  "claimed a s t \<Longrightarrow> claimed a s (fst (AddBlocks_loop c t blks))"
proof (induction blks arbitrary: t)
  case Nil
  then show ?case by simp
next
  case (Cons blk blks)
  from Cons.prems have step: "claimed a s (fst (addBlock c t blk))"
    by (rule addBlock_claimed)
  obtain t' r where r: "addBlock c t blk = (t', r)"
    by (cases "addBlock c t blk")
  with step have "claimed a s t'" by simp
  from Cons.IH [OF this] this r show ?case
    by (cases r) simp_all
qed

lemma Update_claimed:
  "claimed a s db \<Longrightarrow> claimed a s (fst (fn db)) \<Longrightarrow> claimed a s (fst (Update db fn))"
  by (auto simp add: Update_def split: prod.splits ret.splits)

lemma runCall_claimed: "claimed a s db \<Longrightarrow> claimed a s (runCall c db call)"
  by (cases call)
     (simp_all add: AddBlock_def AddBlocks_def Update_claimed addBlock_claimed
        AddBlocks_loop_claimed)

lemma runCalls_claimed: "claimed a s db \<Longrightarrow> claimed a s (runCalls c db calls)"
  unfolding runCalls_def
  by (induction calls arbitrary: db) (simp_all add: runCall_claimed)

text \<open>What a successful \<^verbatim>\<open>AddBlock\<close> of an Open block has done, and the two later failures.\<close>

lemma AddBlock_Open_Ok:
  assumes ok: "AddBlock c db (Open blk) = (db', Ok)"
  shows "\<exists>pending.
           pendings db (OpenAddress blk, OpenSourceHash blk) = Some pending \<and>
           db' = db\<lparr>
             addresses := (addresses db)(OpenAddress blk \<mapsto>
               \<lparr>HeadBlock = Hash c (Open blk), RepBlock = Hash c (Open blk),
                OpenBlock = Hash c (Open blk), Balance = Amount pending\<rparr>),
             pendings := (pendings db)((OpenAddress blk, OpenSourceHash blk) := None),
             representations := (representations db)(OpenRepresentative blk \<mapsto>
               BalanceAdd (case representations db (OpenRepresentative blk) of
                             None \<Rightarrow> ZeroBalance | Some v \<Rightarrow> v) (Amount pending)),
             frontiers := (frontiers db)(Hash c (Open blk) \<mapsto> OpenAddress blk),
             blocks := (blocks db)(Hash c (Open blk) \<mapsto> Open blk)\<rparr>"
    and "blocks db (OpenSourceHash blk) \<noteq> None"
proof -
  from ok have d: "addBlock c db (Open blk) = (db', Ok)"
    by (auto simp add: AddBlock_def Update_def split: prod.splits ret.splits)
  then have pre: "Valid c (Open blk) \<and> \<not> TxnHasBlock db (Hash c (Open blk)) \<and>
      TxnHasBlock db (Root (Open blk))"
    by (auto simp add: addBlock_def Let_def split: if_splits)
  then show "blocks db (OpenSourceHash blk) \<noteq> None"
    by (simp add: TxnHasBlock_iff)
  from d pre have h: "addOpenBlock c db blk = (db', Ok)"
    by (simp add: addBlock_def Let_def)
  then show "\<exists>pending.
           pendings db (OpenAddress blk, OpenSourceHash blk) = Some pending \<and>
           db' = db\<lparr>
             addresses := (addresses db)(OpenAddress blk \<mapsto>
               \<lparr>HeadBlock = Hash c (Open blk), RepBlock = Hash c (Open blk),
                OpenBlock = Hash c (Open blk), Balance = Amount pending\<rparr>),
             pendings := (pendings db)((OpenAddress blk, OpenSourceHash blk) := None),
             representations := (representations db)(OpenRepresentative blk \<mapsto>
               BalanceAdd (case representations db (OpenRepresentative blk) of
                             None \<Rightarrow> ZeroBalance | Some v \<Rightarrow> v) (Amount pending)),
             frontiers := (frontiers db)(Hash c (Open blk) \<mapsto> OpenAddress blk),
             blocks := (blocks db)(Hash c (Open blk) \<mapsto> Open blk)\<rparr>"
    by (auto simp add: addOpenBlock_def Let_def txn_defs
        split: sum.splits option.splits if_splits)
qed

lemma Open_on_existing_account:
  assumes "addresses t (OpenAddress blk) \<noteq> None"
    and "blocks t (OpenSourceHash blk) \<noteq> None"
    and "Valid c (Open blk)"
    and "\<not> TxnHasBlock t (Hash c (Open blk))"
    and "Verify c (OpenAddress blk) (Hash c (Open blk)) (OpenSignature blk)"
  shows "AddBlock c t (Open blk) = (t, Err (ErrorString ''account already exists''))"
  using assms
  by (auto simp add: AddBlock_def Update_def addBlock_def addOpenBlock_def Let_def
      TxnHasBlock_iff TxnGetAddress_def)

lemma Receive_without_pending:
  assumes "pendings t (a, ReceiveSourceHash blk) = None"
    and "Valid c (Receive blk)"
    and "\<not> TxnHasBlock t (Hash c (Receive blk))"
    and "TxnHasBlock t (ReceivePreviousHash blk)"
    and "frontiers t (ReceivePreviousHash blk) = Some a"
    and "Verify c a (Hash c (Receive blk)) (ReceiveSignature blk)"
    and "map_option HeadBlock (addresses t a) = Some (ReceivePreviousHash blk)"
  shows "AddBlock c t (Receive blk) = (t, Err ErrMissingSource)"
  using assms
  by (auto simp add: AddBlock_def Update_def addBlock_def addReceiveBlock_def Let_def
      TxnGetFrontier_def TxnGetAddress_def TxnGetPending_def)

text \<open>
  Claim C6, amended. A successful \<^verbatim>\<open>AddBlock\<close> of an Open block with hash \<open>h\<close> found a
  pending record of the account and the source, of some amount; it has created the
  account's record with head, rep-block and open-block \<open>h\<close> and that amount as balance,
  deleted the pending record, and added the amount (\<^verbatim>\<open>Balance.Add\<close>) to the representation
  of the block's representative. After any further calls of \<^verbatim>\<open>AddBlock\<close> and \<^verbatim>\<open>AddBlocks\<close>:
  an Open block of the same account and source that is valid, not stored and signed by
  the account fails with "account already exists"; a Receive block with the same source
  that is valid, not stored, whose previous block is stored and is the frontier and the
  head of the account, and that is signed by the account, fails with \<open>ErrMissingSource\<close>.
  Both leave the store as it was.
\<close>

theorem Open_block_claims_once:
  assumes ok: "AddBlock c db (Open blk) = (db', Ok)"
  shows "(\<exists>pending cur.
            pendings db (OpenAddress blk, OpenSourceHash blk) = Some pending \<and>
            GetRepresentation db (OpenRepresentative blk) = Inr cur \<and>
            addresses db' (OpenAddress blk) =
              Some \<lparr>HeadBlock = Hash c (Open blk), RepBlock = Hash c (Open blk),
                    OpenBlock = Hash c (Open blk), Balance = Amount pending\<rparr> \<and>
            pendings db' (OpenAddress blk, OpenSourceHash blk) = None \<and>
            GetRepresentation db' (OpenRepresentative blk) =
              Inr (BalanceAdd cur (Amount pending))) \<and>
         (\<forall>calls blk2.
            OpenAddress blk2 = OpenAddress blk \<and>
            OpenSourceHash blk2 = OpenSourceHash blk \<and>
            Valid c (Open blk2) \<and>
            \<not> TxnHasBlock (runCalls c db' calls) (Hash c (Open blk2)) \<and>
            Verify c (OpenAddress blk2) (Hash c (Open blk2)) (OpenSignature blk2) \<longrightarrow>
            AddBlock c (runCalls c db' calls) (Open blk2) =
              (runCalls c db' calls, Err (ErrorString ''account already exists''))) \<and>
         (\<forall>calls blk3.
            ReceiveSourceHash blk3 = OpenSourceHash blk \<and>
            Valid c (Receive blk3) \<and>
            \<not> TxnHasBlock (runCalls c db' calls) (Hash c (Receive blk3)) \<and>
            TxnHasBlock (runCalls c db' calls) (ReceivePreviousHash blk3) \<and>
            frontiers (runCalls c db' calls) (ReceivePreviousHash blk3) =
              Some (OpenAddress blk) \<and>
            Verify c (OpenAddress blk) (Hash c (Receive blk3)) (ReceiveSignature blk3) \<and>
            map_option HeadBlock (addresses (runCalls c db' calls) (OpenAddress blk)) =
              Some (ReceivePreviousHash blk3) \<longrightarrow>
            AddBlock c (runCalls c db' calls) (Receive blk3) =
              (runCalls c db' calls, Err ErrMissingSource))"
proof -
  from AddBlock_Open_Ok [OF ok] obtain pending where
    p: "pendings db (OpenAddress blk, OpenSourceHash blk) = Some pending"
    and db': "db' = db\<lparr>
             addresses := (addresses db)(OpenAddress blk \<mapsto>
               \<lparr>HeadBlock = Hash c (Open blk), RepBlock = Hash c (Open blk),
                OpenBlock = Hash c (Open blk), Balance = Amount pending\<rparr>),
             pendings := (pendings db)((OpenAddress blk, OpenSourceHash blk) := None),
             representations := (representations db)(OpenRepresentative blk \<mapsto>
               BalanceAdd (case representations db (OpenRepresentative blk) of
                             None \<Rightarrow> ZeroBalance | Some v \<Rightarrow> v) (Amount pending)),
             frontiers := (frontiers db)(Hash c (Open blk) \<mapsto> OpenAddress blk),
             blocks := (blocks db)(Hash c (Open blk) \<mapsto> Open blk)\<rparr>"
    and src: "blocks db (OpenSourceHash blk) \<noteq> None"
    by blast
  have effects: "\<exists>pending cur.
            pendings db (OpenAddress blk, OpenSourceHash blk) = Some pending \<and>
            GetRepresentation db (OpenRepresentative blk) = Inr cur \<and>
            addresses db' (OpenAddress blk) =
              Some \<lparr>HeadBlock = Hash c (Open blk), RepBlock = Hash c (Open blk),
                    OpenBlock = Hash c (Open blk), Balance = Amount pending\<rparr> \<and>
            pendings db' (OpenAddress blk, OpenSourceHash blk) = None \<and>
            GetRepresentation db' (OpenRepresentative blk) =
              Inr (BalanceAdd cur (Amount pending))"
    using p by (simp add: db' GetRepresentation_def split: option.splits)
  have "claimed (OpenAddress blk) (OpenSourceHash blk) db'"
    using src by (simp add: claimed_def db')
  then have inv: "claimed (OpenAddress blk) (OpenSourceHash blk) (runCalls c db' calls)"
    for calls by (rule runCalls_claimed)
  have again: "AddBlock c (runCalls c db' calls) (Open blk2) =
      (runCalls c db' calls, Err (ErrorString ''account already exists''))"
    if "OpenAddress blk2 = OpenAddress blk \<and>
        OpenSourceHash blk2 = OpenSourceHash blk \<and>
        Valid c (Open blk2) \<and>
        \<not> TxnHasBlock (runCalls c db' calls) (Hash c (Open blk2)) \<and>
        Verify c (OpenAddress blk2) (Hash c (Open blk2)) (OpenSignature blk2)"
    for calls blk2
    using that inv [of calls] by (intro Open_on_existing_account) (auto simp add: claimed_def)
  have receive: "AddBlock c (runCalls c db' calls) (Receive blk3) =
      (runCalls c db' calls, Err ErrMissingSource)"
    if "ReceiveSourceHash blk3 = OpenSourceHash blk \<and>
        Valid c (Receive blk3) \<and>
        \<not> TxnHasBlock (runCalls c db' calls) (Hash c (Receive blk3)) \<and>
        TxnHasBlock (runCalls c db' calls) (ReceivePreviousHash blk3) \<and>
        frontiers (runCalls c db' calls) (ReceivePreviousHash blk3) =
          Some (OpenAddress blk) \<and>
        Verify c (OpenAddress blk) (Hash c (Receive blk3)) (ReceiveSignature blk3) \<and>
        map_option HeadBlock (addresses (runCalls c db' calls) (OpenAddress blk)) =
          Some (ReceivePreviousHash blk3)"
    for calls blk3
    using that inv [of calls]
    by (intro Receive_without_pending [where a = "OpenAddress blk"]) (auto simp add: claimed_def)
  from effects again receive show ?thesis by blast
qed

theorem Open_block_claims_once_witness:
  "AddBlock fixtureCrypto afterSendStore (Open openBlock) = (afterOpenStore, Ok) \<and>
   pendings afterSendStore (2, 101) = Some \<lparr>Address = 1, Amount = 10\<rparr> \<and>
   addresses afterOpenStore 2 =
     Some \<lparr>HeadBlock = 102, RepBlock = 102, OpenBlock = 102, Balance = 10\<rparr> \<and>
   pendings afterOpenStore (2, 101) = None \<and>
   GetRepresentation afterOpenStore 3 = Inr 10 \<and>
   AddBlock fixtureCrypto (runCalls fixtureCrypto afterOpenStore []) (Open openAgainBlock) =
     (runCalls fixtureCrypto afterOpenStore [],
      Err (ErrorString ''account already exists'')) \<and>
   AddBlock fixtureCrypto
       (runCalls fixtureCrypto afterOpenStore [CallAddBlocks [Send zeroSpendBlock]])
       (Receive receiveAgainBlock) =
     (runCalls fixtureCrypto afterOpenStore [CallAddBlocks [Send zeroSpendBlock]],
      Err ErrMissingSource)"
proof -
  have ok: "AddBlock fixtureCrypto afterSendStore (Open openBlock) = (afterOpenStore, Ok)"
    by (simp add: afterOpenStore_eq) (simp add: afterSendStore_eq eval_defs)
  note T = Open_block_claims_once [OF ok]
  have run: "runCalls fixtureCrypto afterOpenStore [CallAddBlocks [Send zeroSpendBlock]] =
      afterOpenStore"
    by (simp add: runCalls_def afterOpenStore_eq eval_defs)
  have a: "AddBlock fixtureCrypto (runCalls fixtureCrypto afterOpenStore [])
       (Open openAgainBlock) =
     (runCalls fixtureCrypto afterOpenStore [],
      Err (ErrorString ''account already exists''))"
    by (rule T [THEN conjunct2, THEN conjunct1, THEN spec, THEN spec, THEN mp])
       (simp add: runCalls_def afterOpenStore_eq TxnHasBlock_def fixture_defs)
  have b: "AddBlock fixtureCrypto
       (runCalls fixtureCrypto afterOpenStore [CallAddBlocks [Send zeroSpendBlock]])
       (Receive receiveAgainBlock) =
     (runCalls fixtureCrypto afterOpenStore [CallAddBlocks [Send zeroSpendBlock]],
      Err ErrMissingSource)"
    by (rule T [THEN conjunct2, THEN conjunct2, THEN spec, THEN spec, THEN mp])
       (simp add: run, simp add: afterOpenStore_eq TxnHasBlock_def fixture_defs)
  have e: "pendings afterSendStore (2, 101) = Some \<lparr>Address = 1, Amount = 10\<rparr> \<and>
     addresses afterOpenStore 2 =
       Some \<lparr>HeadBlock = 102, RepBlock = 102, OpenBlock = 102, Balance = 10\<rparr> \<and>
     pendings afterOpenStore (2, 101) = None \<and>
     GetRepresentation afterOpenStore 3 = Inr 10"
    using T [THEN conjunct1]
    by (simp add: afterSendStore_eq afterOpenStore_eq GetRepresentation_def)
  from ok a b e show ?thesis by simp
qed

end
